theory Spec2Isabelle
  imports Main "HOL-Library.Word"
begin

section \<open>Data model (types.ts, and the shapes used by the Gemini service)\<close>

text \<open>
  JavaScript strings are modelled as \<open>string\<close>; \<open>null\<close> and \<open>undefined\<close> are \<open>None\<close>.
  A \<open>File\<close> is the byte content of the resource together with its declared \<open>type\<close>.
\<close>

record File =
  bytes :: "8 word list"
  type :: string

record ImageState =
  imgFile :: "File option"
  previewUrl :: "string option"

datatype AppStatus = IDLE | PROCESSING | SUCCESS | ERROR

text \<open>The five \<open>useState\<close> cells of \<open>App\<close>.\<close>

record AppState =
  inputImage :: ImageState
  resultImage :: "string option"
  prompt :: string
  status :: AppStatus
  errorMsg :: "string option"

text \<open>
  A thrown value other than \<open>null\<close> and \<open>undefined\<close>: an \<open>Error\<close>, a \<open>TypeError\<close>, a
  \<open>ProgressEvent\<close>, or any other value. The code only ever reads its \<open>message\<close>
  property, which may be missing (a \<open>ProgressEvent\<close> has none); a message that is
  present is taken to be a string.
\<close>

datatype fault = Fault (message: "string option")

text \<open>
  What a \<open>catch (error: any)\<close> can receive: any value at all. On \<open>null\<close> and
  \<open>undefined\<close> the read of \<open>error.message\<close> does not give a value, it raises.
\<close>

datatype nullish = Null | Undefined

datatype thrown = Nullish nullish | Thrown fault

text \<open>\<open>new Error(m)\<close>\<close>

definition newError :: "string \<Rightarrow> fault" where
  "newError m = Fault (Some m)"

text \<open>The part built by \<open>fileToPart\<close>; \<open>data\<close> is \<open>undefined\<close> when the split has no index 1.\<close>

record InlinePart =
  data :: "string option"
  mimeType :: string

datatype RequestPart = ImagePart InlinePart | TextPart string

record Request =
  model :: string
  contents :: "RequestPart list"

text \<open>The response of \<open>generateContent\<close>: every field is optional.\<close>

record ResponseBlob =
  blobData :: "string option"
  blobMimeType :: "string option"

record ResponsePart =
  inlineData :: "ResponseBlob option"
  partText :: "string option"

record Content =
  parts :: "ResponsePart list option"

record Candidate =
  content :: "Content option"

record Response =
  candidates :: "Candidate list option"

text \<open>
  What the \<open>FileReader\<close> does after \<open>readAsDataURL\<close>: either \<open>onerror\<close> fires first,
  or \<open>onloadend\<close> fires with \<open>reader.result\<close> a string or not a string.
\<close>

datatype ReaderEvent = Errored | Loaded "string option"

text \<open>
  The two collaborators of the service: the file reader and the remote model. The
  promise of \<open>generateContent\<close> is the SDK's and may reject with any value.
\<close>

record Env =
  reader :: "File \<Rightarrow> ReaderEvent"
  generateContent :: "Request \<Rightarrow> thrown + Response"

section \<open>JavaScript string helpers\<close>

text \<open>\<open>String.prototype.trim\<close> on the white space that a \<open>char\<close> can hold.\<close>

definition isWhiteSpace :: "char \<Rightarrow> bool" where
  "isWhiteSpace c = (let n = (of_char c :: nat) in
     n = 9 \<or> n = 10 \<or> n = 11 \<or> n = 12 \<or> n = 13 \<or> n = 32 \<or> n = 160)"

definition trim :: "string \<Rightarrow> string" where
  "trim s = rev (dropWhile isWhiteSpace (rev (dropWhile isWhiteSpace s)))"

text \<open>\<open>s.split(sep)\<close> for a one-character separator.\<close>

fun split :: "char \<Rightarrow> string \<Rightarrow> string list" where
  "split sep [] = [[]]"
| "split sep (c # cs) =
     (if c = sep then [] # split sep cs
      else (case split sep cs of
              [] \<Rightarrow> [[c]]
            | w # ws \<Rightarrow> (c # w) # ws))"

text \<open>\<open>xs[i]\<close>: \<open>undefined\<close> out of range.\<close>

fun index :: "'a list \<Rightarrow> nat \<Rightarrow> 'a option" where
  "index [] i = None"
| "index (x # xs) 0 = Some x"
| "index (x # xs) (Suc i) = index xs i"

text \<open>\<open>a || b\<close> on a possibly missing string: the empty string is falsy.\<close>

definition orElse :: "string option \<Rightarrow> string \<Rightarrow> string" where
  "orElse a b = (case a of None \<Rightarrow> b | Some s \<Rightarrow> if s = [] then b else s)"

section \<open>The file reader of the platform\<close>

text \<open>
  \<open>readAsDataURL\<close> is the browser's, not the repository's. Its result is a data URL
  (RFC 2397): \<open>data:\<close>, a media type, \<open>;base64,\<close> and the base64 encoding (RFC 4648,
  with padding) of the bytes. Which media type the browser writes for a given declared
  type is its own business (for an empty or unparsable type it may write
  \<open>application/octet-stream\<close>), so \<open>dataURL\<close> takes it as an argument.
  \<open>base64Decode\<close> is the inverse direction of the same RFC, the decoder the round trip
  is measured with.
\<close>

definition b64char :: "nat \<Rightarrow> char" where
  "b64char n =
     (if n < 26 then char_of (65 + n)
      else if n < 52 then char_of (71 + n)
      else if n < 62 then char_of (n - 4)
      else if n = 62 then CHR ''+''
      else CHR ''/'')"

definition b64index :: "char \<Rightarrow> nat option" where
  "b64index c =
     (let v = (of_char c :: nat) in
      if 65 \<le> v \<and> v \<le> 90 then Some (v - 65)
      else if 97 \<le> v \<and> v \<le> 122 then Some (v - 71)
      else if 48 \<le> v \<and> v \<le> 57 then Some (v + 4)
      else if v = 43 then Some 62
      else if v = 47 then Some 63
      else None)"

fun base64 :: "8 word list \<Rightarrow> string" where
  "base64 (a # b # c # rest) =
     (let n = unat a * 65536 + unat b * 256 + unat c
      in b64char (n div 262144) # b64char (n div 4096 mod 64)
           # b64char (n div 64 mod 64) # b64char (n mod 64) # base64 rest)"
| "base64 [a, b] =
     (let n = unat a * 65536 + unat b * 256
      in [b64char (n div 262144), b64char (n div 4096 mod 64),
          b64char (n div 64 mod 64), CHR ''=''])"
| "base64 [a] =
     (let n = unat a * 65536
      in [b64char (n div 262144), b64char (n div 4096 mod 64), CHR ''='', CHR ''=''])"
| "base64 [] = []"

fun base64Decode :: "string \<Rightarrow> 8 word list option" where
  "base64Decode [] = Some []"
| "base64Decode (c1 # c2 # c3 # c4 # rest) =
     (case b64index c1 of
        None \<Rightarrow> None
      | Some i1 \<Rightarrow>
     (case b64index c2 of
        None \<Rightarrow> None
      | Some i2 \<Rightarrow>
          if c3 = CHR ''='' \<and> c4 = CHR ''='' \<and> rest = []
          then Some [of_nat ((i1 * 64 + i2) div 16)]
          else
     (case b64index c3 of
        None \<Rightarrow> None
      | Some i3 \<Rightarrow>
          if c4 = CHR ''='' \<and> rest = []
          then Some [of_nat (((i1 * 64 + i2) * 64 + i3) div 1024),
                     of_nat (((i1 * 64 + i2) * 64 + i3) div 4 mod 256)]
          else
     (case b64index c4 of
        None \<Rightarrow> None
      | Some i4 \<Rightarrow>
     (case base64Decode rest of
        None \<Rightarrow> None
      | Some bs \<Rightarrow>
          Some (of_nat ((((i1 * 64 + i2) * 64 + i3) * 64 + i4) div 65536)
                # of_nat ((((i1 * 64 + i2) * 64 + i3) * 64 + i4) div 256 mod 256)
                # of_nat ((((i1 * 64 + i2) * 64 + i3) * 64 + i4) mod 256)
                # bs))))))"
| "base64Decode cs = None"

definition dataURL :: "string \<Rightarrow> 8 word list \<Rightarrow> string" where
  "dataURL mediaType bs = ''data:'' @ mediaType @ '';base64,'' @ base64 bs"

section \<open>The Gemini service\<close>

definition fileToPart :: "ReaderEvent \<Rightarrow> File \<Rightarrow> fault + InlinePart" where
  "fileToPart ev f =
     (case ev of
        Errored \<Rightarrow> Inl (Fault None)
      | Loaded None \<Rightarrow> Inl (newError ''Failed to read file'')
      | Loaded (Some result) \<Rightarrow>
          Inr \<lparr> data = index (split (CHR '','') result) 1, mimeType = type f \<rparr>)"

text \<open>The test \<open>part.inlineData && part.inlineData.data\<close>.\<close>

definition hasImage :: "ResponsePart \<Rightarrow> bool" where
  "hasImage p =
     (case inlineData p of
        None \<Rightarrow> False
      | Some b \<Rightarrow> (case blobData b of None \<Rightarrow> False | Some d \<Rightarrow> d \<noteq> []))"

text \<open>The test \<open>p.text\<close> of the \<open>find\<close>.\<close>

definition hasText :: "ResponsePart \<Rightarrow> bool" where
  "hasText p = (case partText p of None \<Rightarrow> False | Some t \<Rightarrow> t \<noteq> [])"

definition dataUrl :: "ResponsePart \<Rightarrow> string" where
  "dataUrl p =
     (case inlineData p of
        None \<Rightarrow> []
      | Some b \<Rightarrow>
          ''data:'' @ orElse (blobMimeType b) ''image/png'' @ '';base64,''
            @ (case blobData b of None \<Rightarrow> [] | Some d \<Rightarrow> d))"

text \<open>
  The message of the \<open>TypeError\<close> raised by \<open>response.candidates[0].content.parts\<close>
  when \<open>content\<close> is missing.
\<close>

definition typeErrorMessage :: string where
  "typeErrorMessage = ''Cannot read properties of undefined (reading 'parts')''"

text \<open>Lines 55 to 67: the loop over the parts of the first candidate.\<close>

definition scanImage :: "Response \<Rightarrow> fault + string option" where
  "scanImage response =
     (case candidates response of
        None \<Rightarrow> Inr None
      | Some [] \<Rightarrow> Inr None
      | Some (c # cs) \<Rightarrow>
          (case content c of
             None \<Rightarrow> Inl (newError typeErrorMessage)
           | Some ct \<Rightarrow>
               (case parts ct of
                  None \<Rightarrow> Inr None
                | Some ps \<Rightarrow>
                    (case find hasImage ps of
                       None \<Rightarrow> Inr None
                     | Some p \<Rightarrow> Inr (Some (dataUrl p))))))"

text \<open>Line 70: \<open>response.candidates?.[0]?.content?.parts?.find(p => p.text)?.text\<close>.\<close>

definition textPart :: "Response \<Rightarrow> string option" where
  "textPart response =
     (case candidates response of
        None \<Rightarrow> None
      | Some [] \<Rightarrow> None
      | Some (c # cs) \<Rightarrow>
          (case content c of
             None \<Rightarrow> None
           | Some ct \<Rightarrow>
               (case parts ct of
                  None \<Rightarrow> None
                | Some ps \<Rightarrow>
                    (case find hasText ps of
                       None \<Rightarrow> None
                     | Some p \<Rightarrow> partText p))))"

definition refusalMessage :: "string \<Rightarrow> string" where
  "refusalMessage t =
     ''The model returned text instead of an image: '' @ [CHR 0x22] @ take 100 t
       @ ''...'' @ [CHR 0x22]"

definition noImageMessage :: string where
  "noImageMessage = ''No image data received from Gemini.''"

text \<open>Lines 55 to 75: what the \<open>try\<close> block does with a response.\<close>

definition readResponse :: "Response \<Rightarrow> fault + string" where
  "readResponse response =
     (case scanImage response of
        Inl e \<Rightarrow> Inl e
      | Inr (Some url) \<Rightarrow> Inr url
      | Inr None \<Rightarrow>
          (case textPart response of
             Some t \<Rightarrow>
               (if t \<noteq> [] then Inl (newError (refusalMessage t))
                else Inl (newError noImageMessage))
           | None \<Rightarrow> Inl (newError noImageMessage)))"

definition buildRequest :: "InlinePart \<Rightarrow> string \<Rightarrow> Request" where
  "buildRequest imagePart p =
     \<lparr> model = ''gemini-2.5-flash-image'', contents = [ImagePart imagePart, TextPart p] \<rparr>"

text \<open>
  Lines 39 to 75: the body of the \<open>try\<close>. What \<open>fileToPart\<close> rejects with and what the
  body itself throws are objects; what \<open>generateContent\<close> rejects with is passed on as
  it is.
\<close>

definition tryBlock :: "Env \<Rightarrow> File \<Rightarrow> string \<Rightarrow> thrown + string" where
  "tryBlock env imageFile p =
     (case fileToPart (reader env imageFile) imageFile of
        Inl e \<Rightarrow> Inl (Thrown e)
      | Inr imagePart \<Rightarrow>
          (case generateContent env (buildRequest imagePart p) of
             Inl e \<Rightarrow> Inl e
           | Inr response \<Rightarrow>
               (case readResponse response of
                  Inl e \<Rightarrow> Inl (Thrown e)
                | Inr url \<Rightarrow> Inr url)))"

text \<open>
  Lines 39 to 52: the requests that one run of \<open>editImageWithGemini\<close> passes to
  \<open>generateContent\<close>: none when \<open>fileToPart\<close> rejects, otherwise the one of line 44.
\<close>

definition outboundRequests :: "Env \<Rightarrow> File \<Rightarrow> string \<Rightarrow> Request list" where
  "outboundRequests env imageFile p =
     (case fileToPart (reader env imageFile) imageFile of
        Inl e \<Rightarrow> []
      | Inr imagePart \<Rightarrow> [buildRequest imagePart p])"

definition fallbackMessage :: string where
  "fallbackMessage = ''Failed to generate image.''"

text \<open>
  The message of the \<open>TypeError\<close> raised by \<open>error.message\<close> on line 79 when \<open>error\<close> is
  \<open>null\<close> or \<open>undefined\<close>.
\<close>

definition messageReadError :: "nullish \<Rightarrow> string" where
  "messageReadError v =
     ''Cannot read properties of ''
       @ (case v of Null \<Rightarrow> ''null'' | Undefined \<Rightarrow> ''undefined'')
       @ '' (reading 'message')''"

text \<open>
  The whole function: \<open>Inr\<close> is the resolved data URL, \<open>Inl\<close> the rejection. The \<open>catch\<close>
  of lines 77 to 80 builds a new \<open>Error\<close> from \<open>error.message\<close>; when that read raises,
  the \<open>TypeError\<close> leaves the function instead.
\<close>

definition editImageWithGemini :: "Env \<Rightarrow> File \<Rightarrow> string \<Rightarrow> fault + string" where
  "editImageWithGemini env imageFile p =
     (case tryBlock env imageFile p of
        Inr url \<Rightarrow> Inr url
      | Inl (Nullish v) \<Rightarrow> Inl (Fault (Some (messageReadError v)))
      | Inl (Thrown error) \<Rightarrow> Inl (newError (orElse (message error) fallbackMessage)))"

section \<open>The session state of App.tsx\<close>

text \<open>
  \<open>handleGenerate\<close> up to its \<open>await\<close> (lines 28 to 35): the guard of line 28, the
  three setters, and the call of \<open>editImageWithGemini\<close> that was started, if any.
\<close>

definition handleGenerate_begin :: "AppState \<Rightarrow> AppState \<times> (File \<times> string) option" where
  "handleGenerate_begin s =
     (case imgFile (inputImage s) of
        None \<Rightarrow> (s, None)
      | Some f \<Rightarrow>
          if trim (prompt s) = [] then (s, None)
          else (s\<lparr> status := PROCESSING, errorMsg := None, resultImage := None \<rparr>,
                Some (f, prompt s)))"

text \<open>
  \<open>handleGenerate\<close> after its \<open>await\<close> (lines 36 to 41), applied to the state the
  session has when the promise settles. The promise is the one of \<open>editImageWithGemini\<close>,
  whose rejections are all objects.
\<close>

definition handleGenerate_settle :: "fault + string \<Rightarrow> AppState \<Rightarrow> AppState" where
  "handleGenerate_settle outcome s =
     (case outcome of
        Inr generatedImageDataUrl \<Rightarrow>
          s\<lparr> resultImage := Some generatedImageDataUrl, status := SUCCESS \<rparr>
      | Inl err \<Rightarrow>
          s\<lparr> status := ERROR,
             errorMsg := Some (orElse (message err) ''An unexpected error occurred.'') \<rparr>)"

text \<open>A submit that runs to completion with nothing else happening in between.\<close>

definition handleGenerate :: "Env \<Rightarrow> AppState \<Rightarrow> AppState" where
  "handleGenerate env s =
     (case handleGenerate_begin s of
        (s1, None) \<Rightarrow> s1
      | (s1, Some (f, p)) \<Rightarrow> handleGenerate_settle (editImageWithGemini env f p) s1)"

definition handleReset :: "AppState \<Rightarrow> AppState" where
  "handleReset s = s\<lparr> prompt := [], resultImage := None, status := IDLE \<rparr>"

text \<open>
  \<open>handleGenerate\<close> invoked \<open>n\<close> times one after the other, no promise settling in
  between: the final state and the runs of \<open>editImageWithGemini\<close> that were started,
  each with its arguments. Whether the button lets a click reach the handler is not
  part of this.
\<close>

fun submits :: "nat \<Rightarrow> AppState \<Rightarrow> AppState \<times> (File \<times> string) list" where
  "submits 0 s = (s, [])"
| "submits (Suc n) s =
     (case handleGenerate_begin s of
        (s1, c) \<Rightarrow>
          (case submits n s1 of
             (s2, cs) \<Rightarrow> (s2, (case c of None \<Rightarrow> [] | Some x \<Rightarrow> [x]) @ cs)))"

text \<open>The requests sent by a list of runs of \<open>editImageWithGemini\<close>.\<close>

fun outboundOf :: "Env \<Rightarrow> (File \<times> string) list \<Rightarrow> Request list" where
  "outboundOf env [] = []"
| "outboundOf env ((f, p) # calls) = outboundRequests env f p @ outboundOf env calls"

section \<open>Concrete sessions and responses\<close>

definition pngFile :: File where
  "pngFile = \<lparr> bytes = [0x41], type = ''image/png'' \<rparr>"

definition commaFile :: File where
  "commaFile = \<lparr> bytes = [0x41], type = ''image/a,b'' \<rparr>"

definition blankPromptState :: AppState where
  "blankPromptState =
     \<lparr> inputImage = \<lparr> imgFile = Some pngFile, previewUrl = Some ''blob:1'' \<rparr>,
       resultImage = Some ''data:image/png;base64,QQ=='', prompt = '' '',
       status = SUCCESS, errorMsg = None \<rparr>"

definition processingState :: AppState where
  "processingState =
     \<lparr> inputImage = \<lparr> imgFile = Some pngFile, previewUrl = Some ''blob:1'' \<rparr>,
       resultImage = None, prompt = ''x'', status = PROCESSING, errorMsg = None \<rparr>"

definition idleState :: AppState where
  "idleState =
     \<lparr> inputImage = \<lparr> imgFile = Some pngFile, previewUrl = Some ''blob:1'' \<rparr>,
       resultImage = None, prompt = ''x'', status = IDLE, errorMsg = None \<rparr>"

text \<open>A generation is in flight and the user presses Clear.\<close>

definition resetState :: AppState where
  "resetState = handleReset processingState"

text \<open>
  An environment whose reader delivers a PNG data URL of the bytes and whose remote call
  settles as given.
\<close>

definition browserEnv :: "thrown + Response \<Rightarrow> Env" where
  "browserEnv outcome =
     \<lparr> reader = (\<lambda>f. Loaded (Some (dataURL ''image/png'' (bytes f)))),
       generateContent = (\<lambda>request. outcome) \<rparr>"

text \<open>The remote call rejects with an object that has no message.\<close>

definition faultEnv :: Env where
  "faultEnv = browserEnv (Inl (Thrown (Fault None)))"


definition candidateOf :: "ResponsePart list \<Rightarrow> Candidate" where
  "candidateOf ps = \<lparr> content = Some \<lparr> parts = Some ps \<rparr> \<rparr>"

definition textOnly :: "string \<Rightarrow> ResponsePart" where
  "textOnly t = \<lparr> inlineData = None, partText = Some t \<rparr>"

definition imageOnly :: "string option \<Rightarrow> string \<Rightarrow> ResponsePart" where
  "imageOnly m d =
     \<lparr> inlineData = Some \<lparr> blobData = Some d, blobMimeType = m \<rparr>, partText = None \<rparr>"

definition refusalText :: string where
  "refusalText = ''Sorry, I can't do that because of policy reasons and more explanation text padding to exceed one hundred characters total length here''"

definition refusalResponse :: Response where
  "refusalResponse = \<lparr> candidates = Some [candidateOf [textOnly refusalText]] \<rparr>"

text \<open>The only part of the first candidate is \<open>{text: ''}\<close>.\<close>

definition emptyTextResponse :: Response where
  "emptyTextResponse = \<lparr> candidates = Some [candidateOf [textOnly []]] \<rparr>"

definition jpegResponse :: Response where
  "jpegResponse =
     \<lparr> candidates = Some [candidateOf [imageOnly (Some ''image/jpeg'') ''QQ=='']] \<rparr>"

definition secondCandidateResponse :: Response where
  "secondCandidateResponse =
     \<lparr> candidates =
         Some [candidateOf [], candidateOf [imageOnly (Some ''image/jpeg'') ''QQ=='']] \<rparr>"

text \<open>A candidate without \<open>content\<close>, as the service sends when it blocks a generation.\<close>

definition noContentResponse :: Response where
  "noContentResponse = \<lparr> candidates = Some [\<lparr> content = None \<rparr>] \<rparr>"

section \<open>Helper lemmas\<close>

subsection \<open>Strings\<close>

lemma trim_empty_iff: "trim p = [] \<longleftrightarrow> list_all isWhiteSpace p"
proof
  assume "list_all isWhiteSpace p"
  then have "dropWhile isWhiteSpace p = []" by (induction p) simp_all
  then show "trim p = []" by (simp only: trim_def rev.simps dropWhile.simps)
next
  assume t: "trim p = []"
  show "list_all isWhiteSpace p"
  proof (rule ccontr)
    assume "\<not> list_all isWhiteSpace p"
    then have ne: "dropWhile isWhiteSpace p \<noteq> []" by (induction p) auto
    then have h: "\<not> isWhiteSpace (hd (dropWhile isWhiteSpace p))" by (rule hd_dropWhile)
    from ne have "hd (dropWhile isWhiteSpace p) \<in> set (rev (dropWhile isWhiteSpace p))" by simp
    with t show False using h by (simp add: trim_def dropWhile_eq_Nil_conv del: set_rev)
  qed
qed

lemma isWhiteSpace_x: "\<not> isWhiteSpace CHR ''x''"
  by (simp add: isWhiteSpace_def)

lemma orElse_nonempty: "b \<noteq> [] \<Longrightarrow> orElse a b \<noteq> []"
  by (simp add: orElse_def split: option.splits)

lemma split_no_sep: "sep \<notin> set xs \<Longrightarrow> split sep xs = [xs]"
  by (induction xs) auto

lemma split_at_first: "sep \<notin> set pre \<Longrightarrow> split sep (pre @ sep # rest) = pre # split sep rest"
  by (induction pre) auto

lemma find_list_ex: "list_ex P xs \<Longrightarrow> \<exists>x. find P xs = Some x \<and> P x"
  by (induction xs) auto

lemma find_none: "\<not> list_ex P xs \<Longrightarrow> find P xs = None"
  by (induction xs) auto

subsection \<open>Base64\<close>

lemma b64index_b64char: "n < 64 \<Longrightarrow> b64index (b64char n) = Some n"
  by (auto simp: b64index_def b64char_def Let_def)

lemma b64index_pad: "b64index CHR ''='' = None"
  by (simp add: b64index_def)

lemma b64char_not_pad: "n < 64 \<Longrightarrow> b64char n \<noteq> CHR ''=''"
  using b64index_b64char b64index_pad by fastforce

lemma b64char_not_comma: "b64char n \<noteq> CHR '',''"
proof
  assume "b64char n = CHR '',''"
  then have "(of_char (b64char n) :: nat) = 44" by simp
  then show False by (auto simp: b64char_def split: if_splits)
qed

lemma digits2: "n div 262144 * 64 + n div 4096 mod 64 = (n div 4096 :: nat)"
proof -
  have "n div 262144 = n div 4096 div 64" using div_mult2_eq [of n 4096 64] by simp
  then show ?thesis by simp
qed

lemma digits3: "n div 4096 * 64 + n div 64 mod 64 = (n div 64 :: nat)"
proof -
  have "n div 4096 = n div 64 div 64" using div_mult2_eq [of n 64 64] by simp
  then show ?thesis by simp
qed

lemma top_digit: "n < 16777216 \<Longrightarrow> n div 262144 < (64 :: nat)"
  by (simp add: less_mult_imp_div_less)

lemma bytes3:
  fixes x y z :: nat
  assumes "x < 256" "y < 256" "z < 256"
  shows "(x * 65536 + y * 256 + z) div 65536 = x"
    and "(x * 65536 + y * 256 + z) div 256 mod 256 = y"
    and "(x * 65536 + y * 256 + z) mod 256 = z"
    and "x * 65536 + y * 256 + z < 16777216"
proof -
  show "(x * 65536 + y * 256 + z) div 65536 = x"
    by (rule div_nat_eqI) (use assms in simp_all)
  have "(x * 65536 + y * 256 + z) div 256 = x * 256 + y"
    by (rule div_nat_eqI) (use assms in simp_all)
  then show "(x * 65536 + y * 256 + z) div 256 mod 256 = y"
    using assms by simp
  have "x * 65536 + y * 256 + z = z + (x * 256 + y) * 256" by simp
  then show "(x * 65536 + y * 256 + z) mod 256 = z"
    using assms by (simp only: mod_mult_self1) simp
  show "x * 65536 + y * 256 + z < 16777216" using assms by simp
qed

lemma bytes2:
  fixes x y :: nat
  assumes "x < 256" "y < 256"
  shows "(x * 65536 + y * 256) div 64 div 1024 = x"
    and "(x * 65536 + y * 256) div 64 div 4 mod 256 = y"
    and "x * 65536 + y * 256 < 16777216"
proof -
  have d: "(x * 65536 + y * 256) div 64 = x * 1024 + y * 4"
    by (rule div_nat_eqI) simp_all
  have "(x * 1024 + y * 4) div 1024 = x"
    by (rule div_nat_eqI) (use assms in simp_all)
  with d show "(x * 65536 + y * 256) div 64 div 1024 = x" by simp
  have "(x * 1024 + y * 4) div 4 = x * 256 + y"
    by (rule div_nat_eqI) simp_all
  with d show "(x * 65536 + y * 256) div 64 div 4 mod 256 = y"
    using assms by simp
  show "x * 65536 + y * 256 < 16777216" using assms by simp
qed

lemma bytes1:
  fixes x :: nat
  assumes "x < 256"
  shows "(x * 65536) div 4096 div 16 = x" and "x * 65536 < 16777216"
proof -
  have "(x * 65536) div 4096 = x * 16"
    by (rule div_nat_eqI) simp_all
  then show "(x * 65536) div 4096 div 16 = x" by simp
  show "x * 65536 < 16777216" using assms by simp
qed

lemma unat_byte: "unat (a :: 8 word) < 256"
  using unsigned_less [of a, where 'a = nat] by simp

lemma decode_group3:
  assumes "n < 16777216"
  shows "base64Decode (b64char (n div 262144) # b64char (n div 4096 mod 64)
           # b64char (n div 64 mod 64) # b64char (n mod 64) # rest)
         = (case base64Decode rest of
              None \<Rightarrow> None
            | Some bs \<Rightarrow> Some (of_nat (n div 65536) # of_nat (n div 256 mod 256)
                               # of_nat (n mod 256) # bs))"
proof -
  have e: "((n div 262144 * 64 + n div 4096 mod 64) * 64 + n div 64 mod 64) * 64 + n mod 64 = n"
    by (simp only: digits2 digits3) simp
  show ?thesis
    by (simp only: base64Decode.simps b64index_b64char top_digit [OF assms] b64char_not_pad
        mod_less_divisor zero_less_numeral option.case e if_False simp_thms)
qed

lemma decode_group2:
  assumes "n < 16777216"
  shows "base64Decode [b64char (n div 262144), b64char (n div 4096 mod 64),
           b64char (n div 64 mod 64), CHR ''='']
         = Some [of_nat (n div 64 div 1024), of_nat (n div 64 div 4 mod 256)]"
proof -
  have e: "(n div 262144 * 64 + n div 4096 mod 64) * 64 + n div 64 mod 64 = n div 64"
    by (simp only: digits2 digits3)
  show ?thesis
    by (simp only: base64Decode.simps b64index_b64char top_digit [OF assms] b64char_not_pad
        mod_less_divisor zero_less_numeral option.case e if_False if_True simp_thms)
qed

lemma decode_group1:
  assumes "n < 16777216"
  shows "base64Decode [b64char (n div 262144), b64char (n div 4096 mod 64), CHR ''='', CHR ''='']
         = Some [of_nat (n div 4096 div 16)]"
  by (simp only: base64Decode.simps b64index_b64char top_digit [OF assms]
        mod_less_divisor zero_less_numeral option.case digits2 if_True simp_thms)

lemma base64_roundtrip: "base64Decode (base64 bs) = Some bs"
proof (induction bs rule: base64.induct)
  case (1 a b c rest)
  let ?n = "unat a * 65536 + unat b * 256 + unat c"
  note bs = bytes3 [OF unat_byte [of a] unat_byte [of b] unat_byte [of c]]
  have "base64Decode (base64 (a # b # c # rest))
        = Some (of_nat (?n div 65536) # of_nat (?n div 256 mod 256) # of_nat (?n mod 256) # rest)"
    by (simp only: base64.simps Let_def decode_group3 [OF bs(4)] "1.IH" option.case)
  then show ?case by (simp only: bs) simp
next
  case (2 a b)
  let ?n = "unat a * 65536 + unat b * 256"
  note bs = bytes2 [OF unat_byte [of a] unat_byte [of b]]
  have "base64Decode (base64 [a, b])
        = Some [of_nat (?n div 64 div 1024), of_nat (?n div 64 div 4 mod 256)]"
    by (simp only: base64.simps Let_def decode_group2 [OF bs(3)])
  then show ?case by (simp only: bs) simp
next
  case (3 a)
  let ?n = "unat a * 65536"
  note bs = bytes1 [OF unat_byte [of a]]
  have "base64Decode (base64 [a]) = Some [of_nat (?n div 4096 div 16)]"
    by (simp only: base64.simps Let_def decode_group1 [OF bs(2)])
  then show ?case by (simp only: bs) simp
next
  case 4
  show ?case by simp
qed

lemma base64_no_comma: "CHR '','' \<notin> set (base64 bs)"
  by (induction bs rule: base64.induct)
     (simp_all add: Let_def b64char_not_comma b64char_not_comma [symmetric])

lemma b64char_16: "b64char 16 = CHR ''Q''"
proof (rule of_char_eqI)
  show "(of_char (b64char 16) :: nat) = of_char CHR ''Q''" by (simp add: b64char_def)
qed

lemma base64_A: "base64 [0x41] = ''QQ==''"
  by (simp add: b64char_16)

subsection \<open>The encoder\<close>

lemma split_dataURL:
  assumes "CHR '','' \<notin> set mt"
  shows "split (CHR '','') (dataURL mt bs) = [''data:'' @ mt @ '';base64'', base64 bs]"
proof -
  have r: "dataURL mt bs = (''data:'' @ mt @ '';base64'') @ CHR '','' # base64 bs"
    by (simp add: dataURL_def)
  have n: "CHR '','' \<notin> set (''data:'' @ mt @ '';base64'')"
    using assms by simp
  show ?thesis
    by (simp only: r split_at_first [OF n] split_no_sep [OF base64_no_comma])
qed

lemma fileToPart_dataURL:
  assumes "CHR '','' \<notin> set mt"
  shows "fileToPart (Loaded (Some (dataURL mt (bytes f)))) f
         = Inr \<lparr> data = Some (base64 (bytes f)), mimeType = type f \<rparr>"
  by (simp add: fileToPart_def split_dataURL [OF assms])

lemma fileToPart_pngFile:
  "fileToPart (reader (browserEnv outcome) pngFile) pngFile
   = Inr \<lparr> data = Some ''QQ=='', mimeType = ''image/png'' \<rparr>"
proof -
  have "CHR '','' \<notin> set ''image/png''" by simp
  from fileToPart_dataURL [OF this, of pngFile] show ?thesis
    by (simp add: browserEnv_def pngFile_def base64_A del: base64.simps)
qed

subsection \<open>The generation client\<close>


lemma edit_of_response:
  "fileToPart (reader env f) f = Inr part \<Longrightarrow>
   generateContent env (buildRequest part p) = Inr response \<Longrightarrow>
   editImageWithGemini env f p =
     (case readResponse response of
        Inr url \<Rightarrow> Inr url
      | Inl e \<Rightarrow> Inl (newError (orElse (message e) fallbackMessage)))"
  by (simp add: editImageWithGemini_def tryBlock_def split: sum.splits)

lemma edit_browserEnv:
  "editImageWithGemini (browserEnv (Inr response)) pngFile p =
     (case readResponse response of
        Inr url \<Rightarrow> Inr url
      | Inl e \<Rightarrow> Inl (newError (orElse (message e) fallbackMessage)))"
  by (rule edit_of_response [OF fileToPart_pngFile]) (simp add: browserEnv_def)

lemma hasText_partText: "hasText tp \<Longrightarrow> \<exists>t. partText tp = Some t \<and> t \<noteq> []"
  by (cases "partText tp") (simp_all add: hasText_def)

lemma hasImage_blob:
  "hasImage ip \<Longrightarrow> \<exists>b d. inlineData ip = Some b \<and> blobData b = Some d \<and> d \<noteq> []"
  by (auto simp: hasImage_def split: option.splits)

lemma dataUrl_nonempty: "hasImage ip \<Longrightarrow> dataUrl ip \<noteq> []"
  by (auto simp: dataUrl_def dest: hasImage_blob)

lemma scanImage_nonempty: "scanImage response = Inr (Some url) \<Longrightarrow> url \<noteq> []"
  by (auto simp: scanImage_def find_Some_iff dataUrl_nonempty
      split: option.splits list.splits)

lemma readResponse_nonempty: "readResponse response = Inr url \<Longrightarrow> url \<noteq> []"
  by (auto simp: readResponse_def dest: scanImage_nonempty
      split: sum.splits option.splits if_splits)

lemma edit_success_nonempty: "editImageWithGemini env f p = Inr url \<Longrightarrow> url \<noteq> []"
  by (auto simp: editImageWithGemini_def tryBlock_def dest: readResponse_nonempty
      split: sum.splits thrown.splits)


lemma outbound_one:
  "fileToPart (reader env f) f = Inr part \<Longrightarrow> outboundRequests env f p = [buildRequest part p]"
  by (simp add: outboundRequests_def)

text \<open>
  With \<open>content\<close> present in the first candidate, a response with no usable image and no
  usable text is answered by the message of line 75.
\<close>

lemma empty_response_message:
  assumes "fileToPart (reader env f) f = Inr part"
    and "generateContent env (buildRequest part p) = Inr response"
    and "candidates response = None \<or> candidates response = Some []
         \<or> (\<exists>c cs ct. candidates response = Some (c # cs) \<and> content c = Some ct
              \<and> (parts ct = None
                  \<or> (\<exists>ps. parts ct = Some ps \<and> \<not> list_ex hasImage ps \<and> \<not> list_ex hasText ps)))"
  shows "editImageWithGemini env f p = Inl (newError ''No image data received from Gemini.'')"
proof -
  have "readResponse response = Inl (newError noImageMessage)"
    using assms(3)
    by (auto simp: readResponse_def scanImage_def textPart_def find_none)
  then show ?thesis
    using edit_of_response [OF assms(1,2)]
    by (simp add: orElse_def newError_def noImageMessage_def)
qed

subsection \<open>The session\<close>

lemma begin_blocked:
  "imgFile (inputImage s) = None \<or> list_all isWhiteSpace (prompt s) \<Longrightarrow>
   handleGenerate_begin s = (s, None)"
  by (auto simp: handleGenerate_begin_def trim_empty_iff split: option.splits)

lemma begin_valid:
  "imgFile (inputImage s) = Some f \<Longrightarrow> \<not> list_all isWhiteSpace (prompt s) \<Longrightarrow>
   handleGenerate_begin s =
     (s\<lparr> status := PROCESSING, errorMsg := None, resultImage := None \<rparr>, Some (f, prompt s))"
  by (simp add: handleGenerate_begin_def trim_empty_iff)

section \<open>The session state controller\<close>

text \<open>
  Claim C1, as amended. \<open>handleGenerate\<close> has no test of the phase: its only guard is the
  one on the image and the instruction. Invoked in a session whose phase is Processing,
  with an image and an instruction that is not blank, it keeps the phase, the image and
  the instruction, clears the result and the error text, and starts one more run of the
  generation client, which sends one more request to the remote model when its read of
  the file succeeds. Invoked twice in a row in a valid Idle session with a readable file,
  it starts two runs and two requests go out.
\<close>

theorem submit_while_processing:
  assumes "status s = PROCESSING"
    and "imgFile (inputImage s) = Some f"
    and "\<not> list_all isWhiteSpace (prompt s)"
    and "fileToPart (reader env f) f = Inr part"
    and "status t = IDLE"
    and "imgFile (inputImage t) = Some g"
    and "\<not> list_all isWhiteSpace (prompt t)"
    and "fileToPart (reader env g) g = Inr part'"
  shows "status (fst (handleGenerate_begin s)) = PROCESSING
    \<and> inputImage (fst (handleGenerate_begin s)) = inputImage s
    \<and> prompt (fst (handleGenerate_begin s)) = prompt s
    \<and> resultImage (fst (handleGenerate_begin s)) = None
    \<and> errorMsg (fst (handleGenerate_begin s)) = None
    \<and> snd (handleGenerate_begin s) = Some (f, prompt s)
    \<and> outboundOf env (snd (submits 1 s)) = [buildRequest part (prompt s)]
    \<and> snd (submits 2 t) = [(g, prompt t), (g, prompt t)]
    \<and> outboundOf env (snd (submits 2 t))
        = [buildRequest part' (prompt t), buildRequest part' (prompt t)]"
proof -
  let ?t1 = "t\<lparr> status := PROCESSING, errorMsg := None, resultImage := None \<rparr>"
  have a: "handleGenerate_begin s =
      (s\<lparr> status := PROCESSING, errorMsg := None, resultImage := None \<rparr>, Some (f, prompt s))"
    using assms(2,3) by (rule begin_valid)
  have b: "handleGenerate_begin t = (?t1, Some (g, prompt t))"
    using assms(6,7) by (rule begin_valid)
  have c: "handleGenerate_begin ?t1 = (?t1, Some (g, prompt t))"
    using begin_valid [of ?t1 g] assms(6,7) by simp
  have one: "snd (submits 1 s) = [(f, prompt s)]"
    by (simp add: a)
  have two: "snd (submits 2 t) = [(g, prompt t), (g, prompt t)]"
    by (simp add: b c numeral_2_eq_2)
  show ?thesis
    by (simp only: one two outboundOf.simps outbound_one [OF assms(4)] outbound_one [OF assms(8)])
       (simp add: a)
qed

theorem submit_while_processing_witness:
  "status processingState = PROCESSING
   \<and> imgFile (inputImage processingState) = Some pngFile
   \<and> \<not> list_all isWhiteSpace (prompt processingState)
   \<and> fileToPart (reader faultEnv pngFile) pngFile
       = Inr \<lparr> data = Some ''QQ=='', mimeType = ''image/png'' \<rparr>
   \<and> status idleState = IDLE
   \<and> imgFile (inputImage idleState) = Some pngFile
   \<and> \<not> list_all isWhiteSpace (prompt idleState)
   \<and> status (fst (handleGenerate_begin processingState)) = PROCESSING
   \<and> resultImage (fst (handleGenerate_begin processingState)) = None
   \<and> snd (handleGenerate_begin processingState) = Some (pngFile, ''x'')
   \<and> snd (submits 2 idleState) = [(pngFile, ''x''), (pngFile, ''x'')]
   \<and> outboundOf faultEnv (snd (submits 2 idleState))
       = [buildRequest \<lparr> data = Some ''QQ=='', mimeType = ''image/png'' \<rparr> ''x'',
          buildRequest \<lparr> data = Some ''QQ=='', mimeType = ''image/png'' \<rparr> ''x'']"
proof -
  have h1: "status processingState = PROCESSING"
    by (simp add: processingState_def)
  have h2: "imgFile (inputImage processingState) = Some pngFile"
    by (simp add: processingState_def)
  have h3: "\<not> list_all isWhiteSpace (prompt processingState)"
    by (simp add: processingState_def isWhiteSpace_x)
  have h4: "fileToPart (reader faultEnv pngFile) pngFile
      = Inr \<lparr> data = Some ''QQ=='', mimeType = ''image/png'' \<rparr>"
    unfolding faultEnv_def by (rule fileToPart_pngFile)
  have h5: "status idleState = IDLE"
    by (simp add: idleState_def)
  have h6: "imgFile (inputImage idleState) = Some pngFile"
    by (simp add: idleState_def)
  have h7: "\<not> list_all isWhiteSpace (prompt idleState)"
    by (simp add: idleState_def isWhiteSpace_x)
  have p: "prompt processingState = ''x''" "prompt idleState = ''x''"
    by (simp_all add: processingState_def idleState_def)
  note r = submit_while_processing [OF h1 h2 h3 h4 h5 h6 h7 h4, unfolded p]
  show ?thesis using r h1 h2 h3 h4 h5 h6 h7 by blast
qed

text \<open>
  The claim as written fails: invoked in a Processing session the handler starts a run
  of the generation client and a request goes out, and invoked twice in an Idle session
  it starts two runs and two requests go out.
\<close>

theorem submit_while_processing_counterexample:
  "status processingState = PROCESSING
   \<and> snd (handleGenerate_begin processingState) = Some (pngFile, ''x'')
   \<and> length (outboundOf faultEnv (snd (submits 1 processingState))) = 1
   \<and> status idleState = IDLE
   \<and> snd (submits 2 idleState) = [(pngFile, ''x''), (pngFile, ''x'')]
   \<and> length (outboundOf faultEnv (snd (submits 2 idleState))) = 2"
proof -
  have r: "outboundRequests faultEnv pngFile ''x''
      = [buildRequest \<lparr> data = Some ''QQ=='', mimeType = ''image/png'' \<rparr> ''x'']"
    unfolding faultEnv_def by (rule outbound_one [OF fileToPart_pngFile])
  have b: "handleGenerate_begin processingState = (processingState, Some (pngFile, ''x''))"
    by (simp add: processingState_def handleGenerate_begin_def trim_def isWhiteSpace_x)
  have c: "handleGenerate_begin idleState = (processingState, Some (pngFile, ''x''))"
    by (simp add: processingState_def idleState_def handleGenerate_begin_def trim_def
        isWhiteSpace_x)
  have one: "snd (submits 1 processingState) = [(pngFile, ''x'')]"
    by (simp add: b)
  have two: "snd (submits 2 idleState) = [(pngFile, ''x''), (pngFile, ''x'')]"
    by (simp add: b c numeral_2_eq_2)
  show ?thesis
    by (simp only: one two outboundOf.simps r b)
       (simp add: processingState_def idleState_def)
qed

text \<open>
  Claim C2, as amended. The continuation of \<open>handleGenerate\<close> does not look at the phase.
  Whatever the session is when the outcome arrives, a success stores the image and sets
  Success, a failure sets Error and stores the message of the fault (or
  ``An unexpected error occurred.''); the other fields are left as they are.
\<close>

theorem outcome_applied_in_any_phase:
  "status (handleGenerate_settle (Inr url) s) = SUCCESS
   \<and> resultImage (handleGenerate_settle (Inr url) s) = Some url
   \<and> errorMsg (handleGenerate_settle (Inr url) s) = errorMsg s
   \<and> inputImage (handleGenerate_settle (Inr url) s) = inputImage s
   \<and> prompt (handleGenerate_settle (Inr url) s) = prompt s
   \<and> status (handleGenerate_settle (Inl err) s) = ERROR
   \<and> errorMsg (handleGenerate_settle (Inl err) s)
       = Some (orElse (message err) ''An unexpected error occurred.'')
   \<and> resultImage (handleGenerate_settle (Inl err) s) = resultImage s
   \<and> inputImage (handleGenerate_settle (Inl err) s) = inputImage s
   \<and> prompt (handleGenerate_settle (Inl err) s) = prompt s"
  by (simp add: handleGenerate_settle_def)

text \<open>
  The claim as written fails: after a reset the session is Idle, and a late success or
  failure still overwrites it.
\<close>

theorem stale_outcome_counterexample:
  "status resetState = IDLE
   \<and> status (handleGenerate_settle (Inr ''data:image/png;base64,QQ=='') resetState) = SUCCESS
   \<and> resultImage (handleGenerate_settle (Inr ''data:image/png;base64,QQ=='') resetState)
       = Some ''data:image/png;base64,QQ==''
   \<and> resultImage resetState = None
   \<and> status (handleGenerate_settle (Inl (newError ''boom'')) resetState) = ERROR
   \<and> errorMsg (handleGenerate_settle (Inl (newError ''boom'')) resetState) = Some ''boom''
   \<and> errorMsg resetState = None"
  by (simp add: resetState_def handleReset_def processingState_def handleGenerate_settle_def
      newError_def orElse_def)

text \<open>
  Claim C4. From a session with an image, an instruction that is not blank and a phase
  other than Processing, a submit that runs to completion ends either in Success with a
  non-empty result image or in Error with a non-empty error text, and in neither Idle nor
  Processing.
\<close>

theorem submit_ends_in_success_or_error:
  assumes "imgFile (inputImage s) = Some f"
    and "\<not> list_all isWhiteSpace (prompt s)"
    and "status s \<noteq> PROCESSING"
  shows "((status (handleGenerate env s) = SUCCESS
            \<and> (\<exists>u. resultImage (handleGenerate env s) = Some u \<and> u \<noteq> []))
          \<or> (status (handleGenerate env s) = ERROR
            \<and> (\<exists>m. errorMsg (handleGenerate env s) = Some m \<and> m \<noteq> [])))
       \<and> status (handleGenerate env s) \<noteq> IDLE
       \<and> status (handleGenerate env s) \<noteq> PROCESSING"
proof -
  let ?s1 = "s\<lparr> status := PROCESSING, errorMsg := None, resultImage := None \<rparr>"
  have r: "handleGenerate env s = handleGenerate_settle (editImageWithGemini env f (prompt s)) ?s1"
    using begin_valid [OF assms(1,2)] by (simp add: handleGenerate_def)
  show ?thesis
  proof (cases "editImageWithGemini env f (prompt s)")
    case (Inr url)
    then have "url \<noteq> []" by (rule edit_success_nonempty)
    with Inr r show ?thesis by (simp add: handleGenerate_settle_def)
  next
    case (Inl e)
    have "orElse (message e) ''An unexpected error occurred.'' \<noteq> []"
      by (rule orElse_nonempty) simp
    with Inl r show ?thesis by (simp add: handleGenerate_settle_def)
  qed
qed

theorem submit_ends_in_success_or_error_witness:
  "imgFile (inputImage idleState) = Some pngFile
   \<and> \<not> list_all isWhiteSpace (prompt idleState)
   \<and> status idleState \<noteq> PROCESSING
   \<and> ((status (handleGenerate faultEnv idleState) = SUCCESS
          \<and> (\<exists>u. resultImage (handleGenerate faultEnv idleState) = Some u \<and> u \<noteq> []))
        \<or> (status (handleGenerate faultEnv idleState) = ERROR
          \<and> (\<exists>m. errorMsg (handleGenerate faultEnv idleState) = Some m \<and> m \<noteq> [])))
   \<and> status (handleGenerate faultEnv idleState) \<noteq> IDLE
   \<and> status (handleGenerate faultEnv idleState) \<noteq> PROCESSING"
proof -
  have h1: "imgFile (inputImage idleState) = Some pngFile"
    by (simp add: idleState_def)
  have h2: "\<not> list_all isWhiteSpace (prompt idleState)"
    by (simp add: idleState_def isWhiteSpace_x)
  have h3: "status idleState \<noteq> PROCESSING"
    by (simp add: idleState_def)
  from submit_ends_in_success_or_error [OF h1 h2 h3, of faultEnv] h1 h2 h3
  show ?thesis by simp
qed

text \<open>
  Claim C8. When the image is absent, or the instruction is empty or only white space,
  submit changes no field of the session, starts no call, and surfaces no error.
\<close>

theorem submit_blocked_is_noop:
  assumes "imgFile (inputImage s) = None \<or> list_all isWhiteSpace (prompt s)"
  shows "handleGenerate_begin s = (s, None) \<and> handleGenerate env s = s"
  using begin_blocked [OF assms] by (simp add: handleGenerate_def)

theorem submit_blocked_is_noop_witness:
  "list_all isWhiteSpace (prompt blankPromptState)
   \<and> handleGenerate_begin blankPromptState = (blankPromptState, None)
   \<and> handleGenerate faultEnv blankPromptState = blankPromptState"
proof -
  have h: "list_all isWhiteSpace (prompt blankPromptState)"
    by (simp add: blankPromptState_def isWhiteSpace_def)
  then have "imgFile (inputImage blankPromptState) = None
      \<or> list_all isWhiteSpace (prompt blankPromptState)" ..
  from submit_blocked_is_noop [OF this, of faultEnv] h show ?thesis by simp
qed

text \<open>
  Claim C10. \<open>handleReset\<close> leaves the error text and the input image (file and preview)
  as they are, empties the instruction, clears the result and sets the phase to Idle;
  so a reset in the Error phase goes to Idle with the old error text still stored.
\<close>

theorem reset_keeps_error_text:
  "errorMsg (handleReset s) = errorMsg s
   \<and> inputImage (handleReset s) = inputImage s
   \<and> prompt (handleReset s) = []
   \<and> resultImage (handleReset s) = None
   \<and> status (handleReset s) = IDLE"
  by (simp add: handleReset_def)

section \<open>The generation client\<close>




text \<open>
  Claim C5, as amended. A part counts as carrying image data or text by the tests of
  the source: \<open>inlineData.data\<close>, respectively \<open>text\<close>, present and not empty. When the
  parts of the first candidate hold no part with image data and at least one part with
  a text that is not empty, the client rejects, and the message is the fixed prefix, a
  double quote, the first 100 characters of the text of the first such part, three dots
  and a double quote.
\<close>

theorem text_refusal_becomes_failure:
  assumes "fileToPart (reader env f) f = Inr part"
    and "generateContent env (buildRequest part p) = Inr response"
    and "candidates response = Some (c # cs)"
    and "content c = Some ct"
    and "parts ct = Some ps"
    and "\<not> list_ex hasImage ps"
    and "list_ex hasText ps"
  shows "\<exists>tp t. find hasText ps = Some tp \<and> partText tp = Some t
           \<and> editImageWithGemini env f p =
               Inl (newError (''The model returned text instead of an image: '' @ [CHR 0x22]
                              @ take 100 t @ ''...'' @ [CHR 0x22]))"
proof -
  from assms(7) obtain tp where tp: "find hasText ps = Some tp" "hasText tp"
    using find_list_ex by blast
  then obtain t where t: "partText tp = Some t" "t \<noteq> []"
    using hasText_partText by blast
  have si: "scanImage response = Inr None"
    using assms(3,4,5) find_none [OF assms(6)] by (simp add: scanImage_def)
  have tx: "textPart response = Some t"
    using assms(3,4,5) tp t by (simp add: textPart_def)
  have "readResponse response = Inl (newError (refusalMessage t))"
    using si tx t by (simp add: readResponse_def)
  then have "editImageWithGemini env f p = Inl (newError (refusalMessage t))"
    using edit_of_response [OF assms(1,2)]
    by (simp add: orElse_def newError_def refusalMessage_def)
  with tp t show ?thesis by (simp add: refusalMessage_def)
qed

theorem text_refusal_becomes_failure_witness:
  "\<not> list_ex hasImage [textOnly refusalText]
   \<and> list_ex hasText [textOnly refusalText]
   \<and> editImageWithGemini (browserEnv (Inr refusalResponse)) pngFile ''x'' =
       Inl (newError (''The model returned text instead of an image: '' @ [CHR 0x22]
         @ ''Sorry, I can't do that because of policy reasons and more explanation text padding to exceed one hun''
         @ ''...'' @ [CHR 0x22]))"
proof -
  let ?env = "browserEnv (Inr refusalResponse)"
  let ?part = "\<lparr> data = Some ''QQ=='', mimeType = ''image/png'' \<rparr>"
  have h1: "fileToPart (reader ?env pngFile) pngFile = Inr ?part"
    by (rule fileToPart_pngFile)
  have h2: "generateContent ?env (buildRequest ?part ''x'') = Inr refusalResponse"
    by (simp add: browserEnv_def)
  have h3: "candidates refusalResponse = Some (candidateOf [textOnly refusalText] # [])"
    by (simp add: refusalResponse_def)
  have h4: "content (candidateOf [textOnly refusalText])
      = Some \<lparr> parts = Some [textOnly refusalText] \<rparr>"
    by (simp add: candidateOf_def)
  have h5: "parts \<lparr> parts = Some [textOnly refusalText] \<rparr> = Some [textOnly refusalText]"
    by simp
  have h6: "\<not> list_ex hasImage [textOnly refusalText]"
    by (simp add: hasImage_def textOnly_def)
  have h7: "list_ex hasText [textOnly refusalText]"
    by (simp add: hasText_def textOnly_def refusalText_def)
  from text_refusal_becomes_failure [OF h1 h2 h3 h4 h5 h6 h7]
  obtain tp t where r: "find hasText [textOnly refusalText] = Some tp" "partText tp = Some t"
    "editImageWithGemini ?env pngFile ''x'' =
       Inl (newError (''The model returned text instead of an image: '' @ [CHR 0x22]
                      @ take 100 t @ ''...'' @ [CHR 0x22]))"
    by blast
  from r(1) h7 have "tp = textOnly refusalText" by simp
  with r(2) have "t = refusalText" by (simp add: textOnly_def)
  with r(3) h6 h7 show ?thesis by (simp add: refusalText_def)
qed

text \<open>
  The claim as written fails: when the only part of the first candidate is a text part
  with the empty string, the rejection is the one for no image data, with no text of the
  part and no dots in it.
\<close>

theorem empty_text_part_counterexample:
  "candidates emptyTextResponse = Some [candidateOf [textOnly []]]
   \<and> partText (textOnly []) = Some []
   \<and> inlineData (textOnly []) = None
   \<and> editImageWithGemini (browserEnv (Inr emptyTextResponse)) pngFile ''x''
       = Inl (newError ''No image data received from Gemini.'')
   \<and> editImageWithGemini (browserEnv (Inr emptyTextResponse)) pngFile ''x''
       \<noteq> Inl (newError (''The model returned text instead of an image: '' @ [CHR 0x22]
                        @ take 100 [] @ ''...'' @ [CHR 0x22]))"
  by (simp add: edit_browserEnv emptyTextResponse_def candidateOf_def textOnly_def
      hasImage_def hasText_def readResponse_def scanImage_def textPart_def
      noImageMessage_def newError_def orElse_def)

text \<open>
  Claim C6, as amended. Only the first candidate is examined. When the parts of the
  first candidate include a part with inline image data, the client resolves with the
  data URI of the first such part: \<open>data:\<close>, its mime type (\<open>image/png\<close> when that is
  missing or empty), \<open>;base64,\<close> and its payload. For \<open>image/jpeg\<close> and \<open>QQ==\<close> this is
  \<open>data:image/jpeg;base64,QQ==\<close>.
\<close>

theorem first_candidate_image_becomes_data_url:
  assumes "fileToPart (reader env f) f = Inr part"
    and "generateContent env (buildRequest part p) = Inr response"
    and "candidates response = Some (c # cs)"
    and "content c = Some ct"
    and "parts ct = Some ps"
    and "list_ex hasImage ps"
  shows "\<exists>ip b d. find hasImage ps = Some ip \<and> inlineData ip = Some b \<and> blobData b = Some d
           \<and> editImageWithGemini env f p =
               Inr (''data:'' @ (case blobMimeType b of
                                   None \<Rightarrow> ''image/png''
                                 | Some m \<Rightarrow> if m = [] then ''image/png'' else m)
                    @ '';base64,'' @ d)"
proof -
  from assms(6) obtain ip where ip: "find hasImage ps = Some ip" "hasImage ip"
    using find_list_ex by blast
  then obtain b d where b: "inlineData ip = Some b" "blobData b = Some d"
    using hasImage_blob by blast
  have "scanImage response = Inr (Some (dataUrl ip))"
    using assms(3,4,5) ip by (simp add: scanImage_def)
  then have "readResponse response = Inr (dataUrl ip)"
    by (simp add: readResponse_def)
  then have "editImageWithGemini env f p = Inr (dataUrl ip)"
    using edit_of_response [OF assms(1,2)] by simp
  with ip b show ?thesis by (simp add: dataUrl_def orElse_def)
qed

theorem first_candidate_image_becomes_data_url_witness:
  "list_ex hasImage [imageOnly (Some ''image/jpeg'') ''QQ=='']
   \<and> editImageWithGemini (browserEnv (Inr jpegResponse)) pngFile ''x''
       = Inr ''data:image/jpeg;base64,QQ==''"
proof -
  let ?env = "browserEnv (Inr jpegResponse)"
  let ?part = "\<lparr> data = Some ''QQ=='', mimeType = ''image/png'' \<rparr>"
  let ?ip = "imageOnly (Some ''image/jpeg'') ''QQ==''"
  have h1: "fileToPart (reader ?env pngFile) pngFile = Inr ?part"
    by (rule fileToPart_pngFile)
  have h2: "generateContent ?env (buildRequest ?part ''x'') = Inr jpegResponse"
    by (simp add: browserEnv_def)
  have h3: "candidates jpegResponse = Some (candidateOf [?ip] # [])"
    by (simp add: jpegResponse_def)
  have h4: "content (candidateOf [?ip]) = Some \<lparr> parts = Some [?ip] \<rparr>"
    by (simp add: candidateOf_def)
  have h5: "parts \<lparr> parts = Some [?ip] \<rparr> = Some [?ip]"
    by simp
  have h6: "list_ex hasImage [?ip]"
    by (simp add: hasImage_def imageOnly_def)
  from first_candidate_image_becomes_data_url [OF h1 h2 h3 h4 h5 h6]
  obtain ip b d where r: "find hasImage [?ip] = Some ip" "inlineData ip = Some b"
    "blobData b = Some d"
    "editImageWithGemini ?env pngFile ''x'' =
       Inr (''data:'' @ (case blobMimeType b of
                           None \<Rightarrow> ''image/png''
                         | Some m \<Rightarrow> if m = [] then ''image/png'' else m)
            @ '';base64,'' @ d)"
    by blast
  from r(1) h6 have "ip = ?ip" by simp
  with r(2) have "b = \<lparr> blobData = Some ''QQ=='', blobMimeType = Some ''image/jpeg'' \<rparr>"
    by (simp add: imageOnly_def)
  with r(3,4) h6 show ?thesis by auto
qed

text \<open>
  The claim as written fails: a response whose second candidate carries the image, the
  first having no parts to offer, is answered by a rejection.
\<close>

theorem image_in_second_candidate_counterexample:
  "candidates secondCandidateResponse
     = Some [candidateOf [], candidateOf [imageOnly (Some ''image/jpeg'') ''QQ=='']]
   \<and> hasImage (imageOnly (Some ''image/jpeg'') ''QQ=='')
   \<and> editImageWithGemini (browserEnv (Inr secondCandidateResponse)) pngFile ''x''
       = Inl (newError ''No image data received from Gemini.'')"
  by (simp add: edit_browserEnv secondCandidateResponse_def candidateOf_def imageOnly_def
      hasImage_def readResponse_def scanImage_def textPart_def noImageMessage_def
      newError_def orElse_def)

text \<open>
  Claim C7. The claim asks for the message that no image data was received whenever the
  response has no candidates, no parts, or parts with neither image data nor text. For a
  first candidate without \<open>content\<close> (so without parts) line 56 reads \<open>content.parts\<close>
  unguarded, where line 70 guards the same path with \<open>?.\<close>; the \<open>TypeError\<close> is caught and
  its message is what the caller gets.
\<close>

theorem missing_content_yields_type_error:
  "candidates noContentResponse = Some [\<lparr> content = None \<rparr>]
   \<and> editImageWithGemini (browserEnv (Inr noContentResponse)) pngFile ''x''
       = Inl (newError ''Cannot read properties of undefined (reading 'parts')'')
   \<and> editImageWithGemini (browserEnv (Inr noContentResponse)) pngFile ''x''
       \<noteq> Inl (newError ''No image data received from Gemini.'')"
  by (simp add: edit_browserEnv noContentResponse_def readResponse_def scanImage_def
      typeErrorMessage_def newError_def orElse_def)

section \<open>The encoder\<close>

text \<open>
  Claim C9. For a readable resource the reader delivers a data URL of its bytes: \<open>data:\<close>,
  the media type the browser writes, \<open>;base64,\<close> and the base64 payload. A media type in
  a data URL holds no comma, the first comma being where the data start. From such a
  result \<open>fileToPart\<close> builds a part whose data are that payload, so that they decode to
  exactly the bytes of the resource, and whose mime type is the declared type of the
  resource, unchanged, whatever media type the browser wrote.
\<close>

theorem encoder_round_trip:
  assumes "CHR '','' \<notin> set mt"
  shows "\<exists>part d. fileToPart (Loaded (Some (dataURL mt (bytes f)))) f = Inr part
           \<and> data part = Some d
           \<and> d = base64 (bytes f)
           \<and> base64Decode d = Some (bytes f)
           \<and> mimeType part = type f"
proof -
  have "fileToPart (Loaded (Some (dataURL mt (bytes f)))) f
      = Inr \<lparr> data = Some (base64 (bytes f)), mimeType = type f \<rparr>"
    using assms by (rule fileToPart_dataURL)
  then show ?thesis by (simp add: base64_roundtrip)
qed

text \<open>
  A resource of declared type \<open>image/a,b\<close> for which the browser writes
  \<open>application/octet-stream\<close>: the byte comes back and the declared type is kept.
\<close>

theorem encoder_round_trip_witness:
  "CHR '','' \<notin> set ''application/octet-stream''
   \<and> dataURL ''application/octet-stream'' (bytes commaFile)
       = ''data:application/octet-stream;base64,QQ==''
   \<and> fileToPart (Loaded (Some ''data:application/octet-stream;base64,QQ=='')) commaFile
       = Inr \<lparr> data = Some ''QQ=='', mimeType = ''image/a,b'' \<rparr>
   \<and> base64Decode ''QQ=='' = Some [0x41]"
proof -
  have h: "CHR '','' \<notin> set ''application/octet-stream''" by simp
  have u: "dataURL ''application/octet-stream'' (bytes commaFile)
      = ''data:application/octet-stream;base64,QQ==''"
    by (simp add: dataURL_def commaFile_def base64_A del: base64.simps)
  from encoder_round_trip [OF h, of commaFile]
  obtain part d where r:
    "fileToPart (Loaded (Some (dataURL ''application/octet-stream'' (bytes commaFile)))) commaFile
       = Inr part"
    "data part = Some d" "base64Decode d = Some (bytes commaFile)"
    by blast
  have e: "fileToPart (Loaded (Some ''data:application/octet-stream;base64,QQ=='')) commaFile
      = Inr \<lparr> data = Some ''QQ=='', mimeType = ''image/a,b'' \<rparr>"
    by (simp add: fileToPart_def commaFile_def)
  have "part = \<lparr> data = Some ''QQ=='', mimeType = ''image/a,b'' \<rparr>"
    using r(1) u e by simp
  then have "data part = Some ''QQ==''" by simp
  with r(2) have "d = ''QQ==''" by simp
  with r(3) h u e show ?thesis by (simp add: commaFile_def)
qed

end
